theory Spec2Isabelle
  imports Main "HOL-Library.Sublist"
begin

section \<open>JavaScript strings\<close>

text \<open>
  A JavaScript string is modelled as a \<^typ>\<open>string\<close> (a list of characters). The
  functions below are the string methods that the two source files call:
  \<^verbatim>\<open>startsWith\<close>, \<^verbatim>\<open>includes\<close>, \<^verbatim>\<open>split\<close> (with a
  separator of one character, as in \<^verbatim>\<open>url.split("/")\<close>) and \<^verbatim>\<open>join\<close>.
\<close>

fun startsWith :: "string \<Rightarrow> string \<Rightarrow> bool" where
  "startsWith s [] = True"
| "startsWith [] (p # ps) = False"
| "startsWith (c # cs) (p # ps) = (c = p \<and> startsWith cs ps)"

fun includes_str :: "string \<Rightarrow> string \<Rightarrow> bool" where
  "includes_str [] p = startsWith [] p"
| "includes_str (c # cs) p = (startsWith (c # cs) p \<or> includes_str cs p)"

text \<open>\<^verbatim>\<open>s.split(sep)\<close>: the pieces between the occurrences of \<open>sep\<close>; the
  accumulator holds the current piece, reversed.\<close>

fun split_from :: "char \<Rightarrow> string \<Rightarrow> string \<Rightarrow> string list" where
  "split_from sep acc [] = [rev acc]"
| "split_from sep acc (c # cs) =
     (if c = sep then rev acc # split_from sep [] cs else split_from sep (c # acc) cs)"

definition split :: "string \<Rightarrow> char \<Rightarrow> string list" where
  "split s sep = split_from sep [] s"

fun join :: "string list \<Rightarrow> string \<Rightarrow> string" where
  "join [] sep = []"
| "join [x] sep = x"
| "join (x # y # ys) sep = x @ sep @ join (y # ys) sep"

section \<open>JavaScript values read from JSON\<close>

text \<open>
  The value that \<^verbatim>\<open>response.json()\<close> yields, together with \<^verbatim>\<open>undefined\<close>.
  A number is kept as the text that JavaScript's number-to-string conversion gives for it
  (\<open>''0''\<close> for zero), which is all that the code under study can observe of a number:
  whether it is truthy, and the property key it denotes. An object is the list of its own
  properties in entry order.
\<close>

datatype jsval =
    Undefined
  | Null
  | Bool bool
  | Num string
  | Str string
  | Arr "jsval list"
  | Obj "(string \<times> jsval) list"

fun truthy :: "jsval \<Rightarrow> bool" where
  "truthy Undefined = False"
| "truthy Null = False"
| "truthy (Bool b) = b"
| "truthy (Num n) = (n \<noteq> ''0'')"
| "truthy (Str s) = (s \<noteq> [])"
| "truthy (Arr xs) = True"
| "truthy (Obj kvs) = True"

fun nullish :: "jsval \<Rightarrow> bool" where
  "nullish Undefined = True"
| "nullish Null = True"
| "nullish v = False"

text \<open>
  The conversion of a value to a property key (\<^verbatim>\<open>versions[npmVersion]\<close>): a
  string is its own key; an array is its elements joined by commas, with \<^verbatim>\<open>null\<close>
  and \<^verbatim>\<open>undefined\<close> elements left empty; an object is \<^verbatim>\<open>[object Object]\<close>,
  unless it has an own property \<^verbatim>\<open>toString\<close>, which in a value read from JSON is
  not a function, and then the conversion raises a \<^verbatim>\<open>TypeError\<close> (\<open>None\<close>).
\<close>

fun to_string :: "jsval \<Rightarrow> string option" where
  "to_string Undefined = Some ''undefined''"
| "to_string Null = Some ''null''"
| "to_string (Bool b) = Some (if b then ''true'' else ''false'')"
| "to_string (Num n) = Some n"
| "to_string (Str s) = Some s"
| "to_string (Arr xs) =
     map_option (\<lambda>parts. join parts '','')
       (those (map (\<lambda>x. if nullish x then Some [] else to_string x) xs))"
| "to_string (Obj kvs) =
     (if map_of kvs ''toString'' = None then Some ''[object Object]'' else None)"

text \<open>A key is an array index when it is the decimal text, without leading zeros, of a
  number below \<open>2^32 - 1\<close>.\<close>

definition is_digit :: "char \<Rightarrow> bool" where
  "is_digit c = (48 \<le> (of_char c :: nat) \<and> (of_char c :: nat) \<le> 57)"

definition array_index :: "string \<Rightarrow> nat option" where
  "array_index k =
     (if k \<noteq> [] \<and> list_all is_digit k \<and> (k = ''0'' \<or> hd k \<noteq> CHR ''0'')
      then (let n = foldl (\<lambda>a c. 10 * a + (of_char c - 48)) (0::nat) k
            in if n < 2 ^ 32 - 1 then Some n else None)
      else None)"

text \<open>
  Reading a property of a value that is neither \<^verbatim>\<open>null\<close> nor \<^verbatim>\<open>undefined\<close>:
  an own property of an object, an element of an array, a character of a string. The
  properties that every JavaScript object inherits (methods, \<^verbatim>\<open>length\<close>) are read as
  \<^verbatim>\<open>undefined\<close>: none of them is named \<^verbatim>\<open>name\<close>, \<^verbatim>\<open>dist-tags\<close>,
  \<^verbatim>\<open>latest\<close>, \<^verbatim>\<open>versions\<close>, \<^verbatim>\<open>dist\<close> or \<^verbatim>\<open>tarball\<close>, and the one
  read with a computed key is followed at once by \<^verbatim>\<open>?.dist\<close>, which no inherited
  value has.
\<close>

fun own_prop :: "jsval \<Rightarrow> string \<Rightarrow> jsval" where
  "own_prop (Obj kvs) k = (case map_of kvs k of Some v \<Rightarrow> v | None \<Rightarrow> Undefined)"
| "own_prop (Arr xs) k =
     (case array_index k of
        Some i \<Rightarrow> if i < length xs then xs ! i else Undefined
      | None \<Rightarrow> Undefined)"
| "own_prop (Str s) k =
     (case array_index k of
        Some i \<Rightarrow> if i < length s then Str [s ! i] else Undefined
      | None \<Rightarrow> Undefined)"
| "own_prop v k = Undefined"

datatype 'x error =
    Error string
  | TypeError string
  | Thrown 'x
  | ErrorOf 'x

text \<open>\<^verbatim>\<open>v[k]\<close> and \<^verbatim>\<open>v.k\<close>: a \<^verbatim>\<open>TypeError\<close> on \<^verbatim>\<open>null\<close> and
  \<^verbatim>\<open>undefined\<close>. \<^verbatim>\<open>v?.[k]\<close> and \<^verbatim>\<open>v?.k\<close>: \<^verbatim>\<open>undefined\<close> there.\<close>

definition get_prop :: "jsval \<Rightarrow> string \<Rightarrow> 'x error + jsval" where
  "get_prop v k =
     (if nullish v
      then Inl (TypeError (''Cannot read properties of '' @ (if v = Null then ''null'' else ''undefined'')
                  @ '' (reading '' @ [CHR 0x27] @ k @ [CHR 0x27] @ '')''))
      else Inr (own_prop v k))"

definition opt_prop :: "jsval \<Rightarrow> string \<Rightarrow> jsval" where
  "opt_prop v k = (if nullish v then Undefined else own_prop v k)"

section \<open>The plugin ingester: \<^verbatim>\<open>npmUpload\<close>\<close>

text \<open>
  The functions that \<^verbatim>\<open>npmUpload\<close> imports are parameters of the model. Each one that
  touches the network or the file system takes the state of the world and returns the new
  one, with either the value it returns or the exception it throws. \<^verbatim>\<open>new_URL path base\<close>
  stands for \<^verbatim>\<open>new URL(path, base).toString()\<close>, with \<open>None\<close> where the constructor
  throws.
\<close>

record 'x response =
  status :: int
  json :: "'x + jsval"

record ('x, 'm, 'w) collaborators =
  new_URL :: "string \<Rightarrow> string \<Rightarrow> string option"
  fetch :: "string \<Rightarrow> 'w \<Rightarrow> ('x + 'x response) \<times> 'w"
  downloadUnzipTarball :: "jsval \<Rightarrow> jsval \<Rightarrow> (string \<times> string) list \<Rightarrow> 'w \<Rightarrow> ('x + string) \<times> 'w"
  findFileRec :: "string \<Rightarrow> string \<Rightarrow> 'w \<Rightarrow> ('x + string option) \<times> 'w"
  extractTarball :: "string \<Rightarrow> string \<Rightarrow> 'w \<Rightarrow> ('x + unit) \<times> 'w"
  deleteFolderFileSystem :: "string \<Rightarrow> 'w \<Rightarrow> ('x + unit) \<times> 'w"
  path_join :: "string \<Rightarrow> string \<Rightarrow> string"
  getPluginMetadata :: "string \<Rightarrow> 'w \<Rightarrow> ('x + 'm) \<times> 'w"

text \<open>The calls made to the collaborators are recorded, in order, beside the world.\<close>

datatype event =
    Fetch string
  | ReadJson
  | DownloadUnzipTarball jsval jsval "(string \<times> string) list"
  | FindFileRec string string
  | ExtractTarball string string
  | DeleteFolderFileSystem string
  | GetPluginMetadata string

record 'w machine =
  world :: 'w
  trace :: "event list"

type_synonym ('x, 'a, 'w) action = "'w machine \<Rightarrow> ('x error + 'a) \<times> 'w machine"

definition return :: "'a \<Rightarrow> ('x, 'a, 'w) action" where
  "return a s = (Inr a, s)"

definition throw :: "'x error \<Rightarrow> ('x, 'a, 'w) action" where
  "throw e s = (Inl e, s)"

definition andThen :: "('x, 'a, 'w) action \<Rightarrow> ('a \<Rightarrow> ('x, 'b, 'w) action) \<Rightarrow> ('x, 'b, 'w) action" where
  "andThen m f s = (case m s of (Inl e, s') \<Rightarrow> (Inl e, s') | (Inr a, s') \<Rightarrow> f a s')"

text \<open>A call to a collaborator: the event is recorded, the world is updated, and an
  exception of the collaborator is thrown on.\<close>

definition call :: "event \<Rightarrow> ('w \<Rightarrow> ('x + 'a) \<times> 'w) \<Rightarrow> ('x, 'a, 'w) action" where
  "call ev f s =
     (case f (world s) of
        (r, w') \<Rightarrow> ((case r of Inl x \<Rightarrow> Inl (Thrown x) | Inr a \<Rightarrow> Inr a),
                    \<lparr>world = w', trace = trace s @ [ev]\<rparr>))"

text \<open>\<^verbatim>\<open>try { ... } catch (err) { throw new Error(err) }\<close>\<close>

definition rethrow :: "('x, 'a, 'w) action \<Rightarrow> ('x, 'a, 'w) action" where
  "rethrow m s =
     (case m s of
        (Inl (Thrown x), s') \<Rightarrow> (Inl (ErrorOf x), s')
      | (r, s') \<Rightarrow> (r, s'))"

definition ALLOWED_BASE_URLS :: "string list" where
  "ALLOWED_BASE_URLS = [''https://www.npmjs.com/package/'', ''https://registry.npmjs.org/'']"

definition isValidBaseUrl :: "string \<Rightarrow> bool" where
  "isValidBaseUrl npmTarballUrl = list_ex (\<lambda>baseUrl. startsWith npmTarballUrl baseUrl) ALLOWED_BASE_URLS"

definition allowedPaths :: "string list" where
  "allowedPaths = [''/'', ''/-/'']"

text \<open>\<^verbatim>\<open>"/" + url.split("/").slice(4).join("/")\<close>\<close>

definition registry_path :: "string \<Rightarrow> string" where
  "registry_path url = ''/'' @ join (drop 4 (split url CHR ''/'')) ''/''"

definition isAllowedPath :: "string \<Rightarrow> bool" where
  "isAllowedPath path = list_ex (\<lambda>allowedPath. startsWith path allowedPath) allowedPaths"

text \<open>What \<^verbatim>\<open>npmUpload\<close> reads from the registry's answer: the plugin name and the
  tarball URL of the version tagged \<^verbatim>\<open>latest\<close>.\<close>

definition tarball_of_details :: "jsval \<Rightarrow> 'x error + jsval \<times> jsval" where
  "tarball_of_details npmDetails =
     (case get_prop npmDetails ''name'' of
        Inl e \<Rightarrow> Inl e
      | Inr pluginName \<Rightarrow>
     (case get_prop npmDetails ''dist-tags'' of
        Inl e \<Rightarrow> Inl e
      | Inr distTags \<Rightarrow>
     (case get_prop distTags ''latest'' of
        Inl e \<Rightarrow> Inl e
      | Inr npmVersion \<Rightarrow>
     (let versions = opt_prop npmDetails ''versions'' in
      case (if nullish versions then Some Undefined
            else map_option (own_prop versions) (to_string npmVersion)) of
        None \<Rightarrow> Inl (TypeError ''Cannot convert object to primitive value'')
      | Some version \<Rightarrow>
     (let npmTarballUrl = opt_prop (opt_prop version ''dist'') ''tarball'' in
      if \<not> truthy npmTarballUrl then Inl (Error ''NPM tarball url not found'')
      else Inr (npmTarballUrl, pluginName))))))"

text \<open>The resolution step: the body of \<^verbatim>\<open>if (!npmTarballUrl.includes(".tgz"))\<close>.\<close>

definition resolve :: "('x, 'm, 'w) collaborators \<Rightarrow> string \<Rightarrow> ('x, jsval \<times> jsval, 'w) action" where
  "resolve env url =
     (let path = registry_path url in
      if \<not> isAllowedPath path then throw (Error ''Invalid NPM package path'')
      else case new_URL env path ''https://registry.npmjs.org/'' of
        None \<Rightarrow> throw (TypeError ''Invalid URL'')
      | Some npmPackageURl \<Rightarrow>
          andThen (call (Fetch npmPackageURl) (fetch env npmPackageURl)) (\<lambda>response.
            if status response \<noteq> 200 then throw (Error ''NPM Package not found'')
            else andThen (call ReadJson (\<lambda>w. (json response, w))) (\<lambda>npmDetails.
              case tarball_of_details npmDetails of
                Inl e \<Rightarrow> throw e
              | Inr found \<Rightarrow> return found)))"

text \<open>What \<^verbatim>\<open>npmUpload\<close> does with the directory that the download returned: from
  \<^verbatim>\<open>findFileRec\<close> to \<^verbatim>\<open>getPluginMetadata\<close>.\<close>

definition after_download :: "('x, 'm, 'w) collaborators \<Rightarrow> string \<Rightarrow> ('x, 'm, 'w) action" where
  "after_download env path =
     andThen (call (FindFileRec path ''.tar.gz'') (findFileRec env path ''.tar.gz'')) (\<lambda>tarballPluginFile.
       case tarballPluginFile of
         None \<Rightarrow> throw (Error ''Tarball plugin file not found'')
       | Some file \<Rightarrow>
           if file = [] then throw (Error ''Tarball plugin file not found'')
           else
             andThen (rethrow
               (andThen (call (ExtractTarball file path) (extractTarball env file path)) (\<lambda>_.
                  call (DeleteFolderFileSystem (path_join env path ''package''))
                    (deleteFolderFileSystem env (path_join env path ''package''))))) (\<lambda>_.
             call (GetPluginMetadata path) (getPluginMetadata env path)))"

text \<open>The download and the unpacking: the rest of \<^verbatim>\<open>npmUpload\<close>.\<close>

definition unpack :: "('x, 'm, 'w) collaborators \<Rightarrow> jsval \<Rightarrow> jsval \<Rightarrow> (string \<times> string) list \<Rightarrow> ('x, 'm, 'w) action" where
  "unpack env npmTarballUrl pluginName headers =
     andThen (call (DownloadUnzipTarball npmTarballUrl pluginName headers)
                (downloadUnzipTarball env npmTarballUrl pluginName headers)) (\<lambda>path.
     after_download env path)"

definition npmUpload :: "('x, 'm, 'w) collaborators \<Rightarrow> string \<Rightarrow> string \<Rightarrow> (string \<times> string) list \<Rightarrow> ('x, 'm, 'w) action" where
  "npmUpload env url name headers =
     (if \<not> isValidBaseUrl url then throw (Error ''The plugin origin must be from NPM'')
      else
        andThen (if \<not> includes_str url ''.tgz'' then resolve env url
                 else return (Str url, Str name)) (\<lambda>(npmTarballUrl, pluginName).
        unpack env npmTarballUrl pluginName headers))"

text \<open>A registry and a file system for running the ingester on concrete inputs: the
  registry answers every request with the given status and body, and the world counts
  the calls that change it.\<close>

definition stub_env :: "int \<Rightarrow> (string + jsval) \<Rightarrow> (string, string, nat) collaborators" where
  "stub_env st body =
     \<lparr>new_URL = (\<lambda>path base. Some (''https://registry.npmjs.org'' @ path)),
      fetch = (\<lambda>u w. (Inr \<lparr>status = st, json = body\<rparr>, Suc w)),
      downloadUnzipTarball = (\<lambda>u n h w. (Inr ''/tmp/plugin'', Suc w)),
      findFileRec = (\<lambda>p sfx w. (Inr (Some (p @ ''/plugin'' @ sfx)), w)),
      extractTarball = (\<lambda>f p w. (Inr (), Suc w)),
      deleteFolderFileSystem = (\<lambda>p w. (Inr (), Suc w)),
      path_join = (\<lambda>a b. a @ ''/'' @ b),
      getPluginMetadata = (\<lambda>p w. (Inr (''metadata of '' @ p), w))\<rparr>"

text \<open>Collaborators that write down, in the world itself, the arguments that each of them
  is called with.\<close>

definition recording_env :: "(string, string, event list) collaborators" where
  "recording_env =
     \<lparr>new_URL = (\<lambda>path base. Some (''https://registry.npmjs.org'' @ path)),
      fetch = (\<lambda>u w. (Inr \<lparr>status = 200, json = Inr Null\<rparr>, w @ [Fetch u])),
      downloadUnzipTarball = (\<lambda>u n h w. (Inr ''/tmp/plugin'', w @ [DownloadUnzipTarball u n h])),
      findFileRec = (\<lambda>p sfx w. (Inr (Some (p @ ''/plugin'' @ sfx)), w @ [FindFileRec p sfx])),
      extractTarball = (\<lambda>f p w. (Inr (), w @ [ExtractTarball f p])),
      deleteFolderFileSystem = (\<lambda>p w. (Inr (), w @ [DeleteFolderFileSystem p])),
      path_join = (\<lambda>a b. a @ ''/'' @ b),
      getPluginMetadata = (\<lambda>p w. (Inr (''metadata of '' @ p), w @ [GetPluginMetadata p]))\<rparr>"

definition blank :: "event list machine" where
  "blank = \<lparr>world = [], trace = []\<rparr>"

text \<open>The events of the resolution step.\<close>

definition registry_event :: "event \<Rightarrow> bool" where
  "registry_event ev = (case ev of Fetch u \<Rightarrow> True | ReadJson \<Rightarrow> True | _ \<Rightarrow> False)"

section \<open>The HTTP request wrapper: \<^verbatim>\<open>TestAPI._requestRaw\<close>\<close>

datatype Method = Get | Post | Put | Patch | Delete

datatype header_value = HeaderUndefined | HeaderString string | HeaderStrings "string list"

text \<open>An expected header value is a string or a regular expression by its type; at run
  time it can be \<^verbatim>\<open>undefined\<close>, which the wrapper checks for.\<close>

datatype expected_header = ExpectUndefined | ExpectString string | ExpectRegExp string

datatype file_data = Buffer string | ReadStream string | FilePath string

datatype file_value = RawFile file_data | AttachedFile string file_data

text \<open>A JavaScript record is the list of its entries, in the order of
  \<^verbatim>\<open>Object.entries\<close>; an optional field is an \<open>option\<close>, \<open>None\<close> for
  \<^verbatim>\<open>undefined\<close>.\<close>

record Expectations =
  exp_status :: "int option"
  exp_headers :: "(string \<times> expected_header) list option"
  headersNotPresent :: "string list option"
  exp_body :: "jsval option"

record RequestOpts =
  opt_headers :: "(string \<times> header_value) list option"
  opt_query :: "(string \<times> string option) list option"
  opt_body :: "jsval option"
  opt_fields :: "(string \<times> jsval) list option"
  opt_files :: "(string \<times> file_value option) list option"
  opt_expectations :: "Expectations option"
  publicUser :: "bool option"
  useProdApp :: "bool option"

text \<open>The request that the calls to the HTTP test client build up before it is sent: one
  field for each method of the client that the wrapper calls.\<close>

record Test =
  test_method :: Method
  test_url :: string
  test_set :: "(string \<times> header_value) list list"
  test_send :: "jsval list"
  test_field :: "(string \<times> jsval) list"
  test_attach :: "(string \<times> file_data option \<times> string option) list"
  test_expect :: "(string \<times> expected_header) list"

text \<open>What \<^verbatim>\<open>await req\<close> throws: a value with an optional \<^verbatim>\<open>code\<close>.\<close>

record thrown =
  err_code :: "string option"
  err_message :: string

text \<open>The parameters of the wrapper: \<^verbatim>\<open>this.getHeaders\<close>, which the subclasses
  override, and the transport, which answers a request or throws.\<close>

record ('r, 'w) harness =
  getHeaders :: "RequestOpts option \<Rightarrow> (string \<times> header_value) list \<Rightarrow> 'w
                   \<Rightarrow> (string \<times> header_value) list \<times> 'w"
  send_request :: "Test \<Rightarrow> 'w \<Rightarrow> (thrown + 'r) \<times> 'w"

text \<open>The world and the requests sent so far, in order.\<close>

record 'w wire =
  wire_world :: 'w
  attempts :: "Test list"

text \<open>\<^verbatim>\<open>const { field = d } = opts || {}\<close>\<close>

definition field_or :: "('r \<Rightarrow> 'a option) \<Rightarrow> 'a \<Rightarrow> 'r option \<Rightarrow> 'a" where
  "field_or f d opts = (case opts of None \<Rightarrow> d | Some given \<Rightarrow> (case f given of None \<Rightarrow> d | Some v \<Rightarrow> v))"

text \<open>\<^verbatim>\<open>opts?.field\<close>\<close>

definition field_of :: "('r \<Rightarrow> 'a option) \<Rightarrow> 'r option \<Rightarrow> 'a option" where
  "field_of f opts = (case opts of None \<Rightarrow> None | Some given \<Rightarrow> f given)"

text \<open>\<^verbatim>\<open>obj[key] = value\<close> on a record with string keys: an existing entry keeps its
  place, a new one goes last.\<close>

fun set_prop :: "(string \<times> 'a) list \<Rightarrow> string \<Rightarrow> 'a \<Rightarrow> (string \<times> 'a) list" where
  "set_prop [] key v = [(key, v)]"
| "set_prop ((k, x) # kvs) key v = (if k = key then (key, v) # kvs else (k, x) # set_prop kvs key v)"

fun truthy_expected :: "expected_header option \<Rightarrow> bool" where
  "truthy_expected None = False"
| "truthy_expected (Some ExpectUndefined) = False"
| "truthy_expected (Some (ExpectString v)) = (v \<noteq> [])"
| "truthy_expected (Some (ExpectRegExp r)) = True"

fun truthy_string :: "string option \<Rightarrow> bool" where
  "truthy_string None = False"
| "truthy_string (Some v) = (v \<noteq> [])"

text \<open>The default expectation on \<^verbatim>\<open>Content-Type\<close>, the regular expression
  \<^verbatim>\<open>/^application\/json/\<close>.\<close>

definition json_content_type :: expected_header where
  "json_content_type = ExpectRegExp (''^application'' @ [CHR 0x5C] @ ''/json'')"

definition default_content_type :: "int \<Rightarrow> (string \<times> expected_header) list \<Rightarrow> (string \<times> expected_header) list" where
  "default_content_type st expectHeaders =
     (if st \<noteq> 204 \<and> \<not> truthy_expected (map_of expectHeaders ''Content-Type'')
      then set_prop expectHeaders ''Content-Type'' json_content_type
      else expectHeaders)"

text \<open>\<^verbatim>\<open>expectHeaders\<close> is \<^verbatim>\<open>expectations.headers\<close> itself when the caller gave
  one, so the assignment of the default changes the caller's \<^verbatim>\<open>opts\<close>; otherwise it is
  a fresh object that nothing reads afterwards.\<close>

definition with_default_content_type :: "RequestOpts option \<Rightarrow> RequestOpts option" where
  "with_default_content_type opts =
     (case opts of
        None \<Rightarrow> None
      | Some given \<Rightarrow>
          (case opt_expectations given of
             None \<Rightarrow> Some given
           | Some expectations \<Rightarrow>
               (case exp_headers expectations of
                  None \<Rightarrow> Some given
                | Some expectHeaders \<Rightarrow>
                    Some (given\<lparr>opt_expectations := Some (expectations\<lparr>exp_headers :=
                      Some (default_content_type (case exp_status expectations of None \<Rightarrow> 200 | Some st \<Rightarrow> st)
                              expectHeaders)\<rparr>)\<rparr>))))"

text \<open>The loop that collects the query parameters, and the URL with the query string.\<close>

fun push_query :: "(string \<times> string option) list \<Rightarrow> string list \<Rightarrow> string list" where
  "push_query [] queryParams = queryParams"
| "push_query ((key, value) # entries) queryParams =
     (if truthy_string value
      then push_query entries (queryParams @ [key @ ''='' @ the value])
      else push_query entries queryParams)"

definition with_query :: "string \<Rightarrow> (string \<times> string option) list \<Rightarrow> string" where
  "with_query url query =
     (let queryParams = push_query query []
      in if length queryParams \<noteq> 0 then url @ ''?'' @ join queryParams ''&'' else url)"

fun add_fields :: "(string \<times> jsval) list \<Rightarrow> Test \<Rightarrow> Test" where
  "add_fields [] req = req"
| "add_fields ((key, value) # entries) req =
     add_fields entries (req\<lparr>test_field := test_field req @ [(key, value)]\<rparr>)"

text \<open>\<^verbatim>\<open>isAttachedFile\<close>: the value is defined and has the own properties
  \<^verbatim>\<open>file\<close> and \<^verbatim>\<open>name\<close>. The two readers give \<^verbatim>\<open>value.file\<close> and
  \<^verbatim>\<open>value.name\<close> of an attached file, and a value that is not one as it is.\<close>

fun isAttachedFile :: "file_value option \<Rightarrow> bool" where
  "isAttachedFile None = False"
| "isAttachedFile (Some (RawFile f)) = False"
| "isAttachedFile (Some (AttachedFile name f)) = True"

fun file_of :: "file_value option \<Rightarrow> file_data option" where
  "file_of None = None"
| "file_of (Some (RawFile f)) = Some f"
| "file_of (Some (AttachedFile name f)) = Some f"

fun name_of :: "file_value option \<Rightarrow> string option" where
  "name_of (Some (AttachedFile name f)) = Some name"
| "name_of value = None"

fun add_files :: "(string \<times> file_value option) list \<Rightarrow> Test \<Rightarrow> Test" where
  "add_files [] req = req"
| "add_files ((key, value) # entries) req =
     add_files entries
       (if isAttachedFile value
        then req\<lparr>test_attach := test_attach req @ [(key, file_of value, name_of value)]\<rparr>
        else req\<lparr>test_attach := test_attach req @ [(key, file_of value, None)]\<rparr>)"

definition undefined_header_message :: "string \<Rightarrow> string" where
  "undefined_header_message key =
     ''Got an undefined expected value for header '' @ [CHR 0x22] @ key @ [CHR 0x22]
       @ '', if you want to check for the absence of a header, use headersNotPresent''"

fun expect_headers :: "(string \<times> expected_header) list \<Rightarrow> Test \<Rightarrow> thrown error + Test" where
  "expect_headers [] req = Inr req"
| "expect_headers ((key, value) # entries) req =
     (if value = ExpectUndefined then Inl (Error (undefined_header_message key))
      else expect_headers entries (req\<lparr>test_expect := test_expect req @ [(key, value)]\<rparr>))"

text \<open>
  The calls that build the request, from \<^verbatim>\<open>request(app)[method](url)\<close> to the last
  \<^verbatim>\<open>req.attach\<close>. The fields of \<^verbatim>\<open>opts\<close> that they use are none that the
  defaulting of \<^verbatim>\<open>Content-Type\<close> assigns to.
\<close>

definition build_request ::
  "('r, 'w) harness \<Rightarrow> Method \<Rightarrow> string \<Rightarrow> RequestOpts option \<Rightarrow> 'w \<Rightarrow> Test \<times> 'w" where
  "build_request env method url opts w =
     (let headers = field_or opt_headers [] opts;
          body = field_of opt_body opts;
          fields = field_or opt_fields [] opts;
          files = field_or opt_files [] opts;
          req = \<lparr>test_method = method, test_url = url, test_set = [], test_send = [],
                 test_field = [], test_attach = [], test_expect = []\<rparr>;
          (auth, w1) = getHeaders env opts [(''x-budibase-include-stacktrace'', HeaderString ''true'')] w;
          req = req\<lparr>test_set := test_set req @ [auth]\<rparr>;
          req = req\<lparr>test_set := test_set req @ [headers]\<rparr>;
          req = (case body of
                   None \<Rightarrow> req
                 | Some b \<Rightarrow> if truthy b then req\<lparr>test_send := test_send req @ [b]\<rparr> else req);
          req = add_fields fields req;
          req = add_files files req
      in (req, w1))"

text \<open>
  Everything \<^verbatim>\<open>_requestRaw\<close> does before \<^verbatim>\<open>await req\<close>. The result holds the
  URL with its query string (the parameter \<^verbatim>\<open>url\<close> is assigned to), the options as the
  defaulting left them, and the request, or the error thrown for an undefined expected
  header.
\<close>

definition prepare ::
  "('r, 'w) harness \<Rightarrow> Method \<Rightarrow> string \<Rightarrow> RequestOpts option \<Rightarrow> 'w
     \<Rightarrow> (string \<times> RequestOpts option \<times> (thrown error + Test)) \<times> 'w" where
  "prepare env method url opts w =
     (let query = field_or opt_query [] opts;
          opts1 = with_default_content_type opts;
          url1 = with_query url query;
          (req, w1) = build_request env method url1 opts1 w
      in ((url1, opts1,
           (case field_of exp_headers (field_of opt_expectations opts1) of
              None \<Rightarrow> Inr req
            | Some expected \<Rightarrow> expect_headers expected req)), w1))"

function requestRaw ::
  "('r, 'w) harness \<Rightarrow> Method \<Rightarrow> string \<Rightarrow> RequestOpts option \<Rightarrow> nat \<Rightarrow> 'w wire
     \<Rightarrow> (thrown error + 'r) \<times> 'w wire" where
  "requestRaw env method url opts attempt s =
     (case prepare env method url opts (wire_world s) of
        ((url1, opts1, Inl e), w1) \<Rightarrow> (Inl e, s\<lparr>wire_world := w1\<rparr>)
      | ((url1, opts1, Inr req), w1) \<Rightarrow>
          (case send_request env req w1 of
             (Inr resp, w2) \<Rightarrow> (Inr resp, \<lparr>wire_world = w2, attempts = attempts s @ [req]\<rparr>)
           | (Inl e, w2) \<Rightarrow>
               if err_code e = Some ''ECONNRESET''
               then if attempt > 2
                    then (Inl (Thrown e), \<lparr>wire_world = w2, attempts = attempts s @ [req]\<rparr>)
                    else requestRaw env method url1 opts1 (attempt + 1)
                           \<lparr>wire_world = w2, attempts = attempts s @ [req]\<rparr>
               else (Inl (Thrown e), \<lparr>wire_world = w2, attempts = attempts s @ [req]\<rparr>)))"
  by pat_completeness auto
termination
  by (relation "measure (\<lambda>(env, method, url, opts, attempt, s). 3 - attempt)") auto

text \<open>Transports for running the wrapper on concrete inputs. The world counts the
  requests sent. The first resets the connection of the first \<open>n\<close> requests and answers
  the later ones; the second resets every connection.\<close>

definition connection_reset :: thrown where
  "connection_reset = \<lparr>err_code = Some ''ECONNRESET'', err_message = ''socket hang up''\<rparr>"

definition flaky_harness :: "nat \<Rightarrow> (string, nat) harness" where
  "flaky_harness n =
     \<lparr>getHeaders = (\<lambda>opts extras w. ((''Accept'', HeaderString ''application/json'') # extras, w)),
      send_request = (\<lambda>req w. (if w < n then Inl connection_reset else Inr ''ok'', Suc w))\<rparr>"

definition dead_harness :: "(string, nat) harness" where
  "dead_harness =
     \<lparr>getHeaders = (\<lambda>opts extras w. ((''Accept'', HeaderString ''application/json'') # extras, w)),
      send_request = (\<lambda>req w. (Inl connection_reset, Suc w))\<rparr>"

definition idle :: "nat wire" where
  "idle = \<lparr>wire_world = 0, attempts = []\<rparr>"

definition no_opts :: RequestOpts where
  "no_opts = \<lparr>opt_headers = None, opt_query = None, opt_body = None, opt_fields = None,
              opt_files = None, opt_expectations = None, publicUser = None, useProdApp = None\<rparr>"

definition no_expectations :: Expectations where
  "no_expectations = \<lparr>exp_status = None, exp_headers = None, headersNotPresent = None, exp_body = None\<rparr>"

text \<open>The query string as the specification words it: the pairs with a truthy value, each
  as \<^verbatim>\<open>key=value\<close>, joined by \<^verbatim>\<open>&\<close> and put after a \<^verbatim>\<open>?\<close> when there is one.\<close>

definition truthy_pairs :: "(string \<times> string option) list \<Rightarrow> (string \<times> string) list" where
  "truthy_pairs query = [(key, v). (key, Some v) \<leftarrow> query, v \<noteq> []]"

definition url_with_truthy_pairs :: "string \<Rightarrow> (string \<times> string option) list \<Rightarrow> string" where
  "url_with_truthy_pairs url query =
     (if truthy_pairs query = [] then url
      else url @ ''?'' @ join (map (\<lambda>(key, v). key @ ''='' @ v) (truthy_pairs query)) ''&'')"

text \<open>\<^verbatim>\<open>expectations?.headers\<close> of the caller's options.\<close>

definition expected_headers :: "RequestOpts option \<Rightarrow> (string \<times> expected_header) list option" where
  "expected_headers opts = field_of exp_headers (field_of opt_expectations opts)"

definition expected_status :: "RequestOpts option \<Rightarrow> int" where
  "expected_status opts = field_or exp_status 200 (field_of opt_expectations opts)"

text \<open>No expected header of the caller's options is \<^verbatim>\<open>undefined\<close>.\<close>

definition headers_defined :: "RequestOpts option \<Rightarrow> bool" where
  "headers_defined opts =
     (case expected_headers opts of
        None \<Rightarrow> True
      | Some hs \<Rightarrow> list_all (\<lambda>(key, value). value \<noteq> ExpectUndefined) hs)"

text \<open>The ingester's machine before anything has happened.\<close>

definition boot :: "nat machine" where
  "boot = \<lparr>world = 0, trace = []\<rparr>"

declare requestRaw.simps [simp del]

section \<open>Properties of the ingester\<close>

lemma startsWith_prefix: "startsWith s p = prefix p s"
  by (induction s p rule: startsWith.induct) auto

lemma includes_str_sublist: "includes_str s p = sublist p s"
  by (induction s) (auto simp: startsWith_prefix sublist_Cons_right)

lemma suffix_includes_str: "suffix p s \<Longrightarrow> includes_str s p"
  by (simp add: includes_str_sublist)

lemma registry_path_allowed: "isAllowedPath (registry_path url)"
  by (simp add: isAllowedPath_def registry_path_def allowedPaths_def)

lemma unpack_trace:
  "\<exists>evs. trace (snd (unpack env u n h s)) = trace s @ DownloadUnzipTarball u n h # evs
     \<and> list_all (\<lambda>ev. \<not> registry_event ev) evs"
  by (auto simp: unpack_def after_download_def andThen_def call_def rethrow_def throw_def registry_event_def
      split: prod.splits sum.splits option.splits error.splits)

lemma unpack_not_invalid_path:
  "fst (unpack env u n h s) \<noteq> Inl (Error ''Invalid NPM package path'')"
  by (auto simp: unpack_def after_download_def andThen_def call_def rethrow_def throw_def
      split: prod.splits sum.splits option.splits error.splits)

lemma tarball_of_details_not_invalid_path:
  "tarball_of_details d \<noteq> Inl (Error ''Invalid NPM package path'')"
  by (auto simp: tarball_of_details_def get_prop_def Let_def split: sum.splits option.splits if_splits)

lemma resolve_not_invalid_path:
  "fst (resolve env url s) \<noteq> Inl (Error ''Invalid NPM package path'')"
  using tarball_of_details_not_invalid_path
  by (auto simp: resolve_def Let_def registry_path_allowed andThen_def call_def throw_def return_def
      split: prod.splits sum.splits option.splits)

lemma npmUpload_direct:
  "isValidBaseUrl url \<Longrightarrow> includes_str url ''.tgz'' \<Longrightarrow>
   npmUpload env url name headers s = unpack env (Str url) (Str name) headers s"
  by (simp add: npmUpload_def andThen_def return_def)

text \<open>With \<^verbatim>\<open>.tgz\<close> in an allow-listed URL, the first thing that happens is the call
  of \<^verbatim>\<open>downloadUnzipTarball\<close> with the URL, the name and the headers as they were
  given, in the world as it was; and nothing depends on the registry.\<close>

lemma npmUpload_direct_call:
  assumes "isValidBaseUrl url" and "includes_str url ''.tgz''"
  shows "npmUpload env url name headers s =
    (case downloadUnzipTarball env (Str url) (Str name) headers (world s) of
       (Inl x, w') \<Rightarrow>
         (Inl (Thrown x), \<lparr>world = w', trace = trace s @ [DownloadUnzipTarball (Str url) (Str name) headers]\<rparr>)
     | (Inr path, w') \<Rightarrow>
         after_download env path
           \<lparr>world = w', trace = trace s @ [DownloadUnzipTarball (Str url) (Str name) headers]\<rparr>)"
  using assms
  by (simp add: npmUpload_def unpack_def andThen_def return_def call_def split: prod.splits sum.splits)

lemma after_download_no_registry:
  "after_download (env\<lparr>fetch := f, new_URL := g\<rparr>) path = after_download env path"
  by (simp add: after_download_def cong: option.case_cong if_cong)

lemma unpack_no_registry:
  "unpack (env\<lparr>fetch := f, new_URL := g\<rparr>) u n h = unpack env u n h"
  by (simp add: unpack_def after_download_no_registry)

lemma npmUpload_direct_no_registry:
  assumes "isValidBaseUrl url" and "includes_str url ''.tgz''"
  shows "npmUpload (env\<lparr>fetch := f, new_URL := g\<rparr>) url name headers s = npmUpload env url name headers s"
  using assms by (simp add: npmUpload_direct unpack_no_registry)

section \<open>Properties of the request wrapper\<close>

lemma push_query_eq:
  "push_query query acc = acc @ map (\<lambda>(key, v). key @ ''='' @ v) (truthy_pairs query)"
proof (induction query arbitrary: acc)
  case Nil
  then show ?case by (simp add: truthy_pairs_def)
next
  case (Cons entry query)
  obtain key v where entry: "entry = (key, v)" by (cases entry)
  show ?case
  proof (cases v)
    case None
    with Cons entry show ?thesis by (simp add: truthy_pairs_def)
  next
    case (Some x)
    with Cons.IH [of "acc @ [key @ ''='' @ x]"] Cons.IH [of acc] entry show ?thesis
      by (simp add: truthy_pairs_def)
  qed
qed

lemma with_query_eq: "with_query url query = url_with_truthy_pairs url query"
  by (simp add: with_query_def url_with_truthy_pairs_def push_query_eq Let_def)

lemma add_fields_url: "test_url (add_fields fs req) = test_url req"
  by (induction fs req rule: add_fields.induct) simp_all

lemma add_files_url: "test_url (add_files files req) = test_url req"
  by (induction files req rule: add_files.induct) (simp_all split: option.splits file_value.splits)

lemma expect_headers_url: "expect_headers ex req = Inr req' \<Longrightarrow> test_url req' = test_url req"
  by (induction ex req rule: expect_headers.induct) (auto split: if_splits)

lemma expect_headers_defined:
  "ExpectUndefined \<notin> snd ` set ex \<Longrightarrow> \<exists>req'. expect_headers ex req = Inr req'"
  by (induction ex req rule: expect_headers.induct) auto

lemma expect_headers_undefined:
  "(k, ExpectUndefined) \<in> set ex \<Longrightarrow>
   \<exists>key. (key, ExpectUndefined) \<in> set ex \<and> expect_headers ex req = Inl (Error (undefined_header_message key))"
  by (induction ex req rule: expect_headers.induct) auto


lemma set_prop_other: "(k, v) \<in> set kvs \<Longrightarrow> k \<noteq> key \<Longrightarrow> (k, v) \<in> set (set_prop kvs key x)"
  by (induction kvs key x rule: set_prop.induct) auto

lemma set_prop_subset: "set (set_prop kvs key x) \<subseteq> insert (key, x) (set kvs)"
  by (induction kvs key x rule: set_prop.induct) auto

lemma map_of_set_prop: "map_of (set_prop kvs key x) key = Some x"
  by (induction kvs key x rule: set_prop.induct) auto

lemma default_content_type_keeps:
  "(k, ExpectUndefined) \<in> set hs \<Longrightarrow> k \<noteq> ''Content-Type'' \<or> st = 204 \<Longrightarrow>
   (k, ExpectUndefined) \<in> set (default_content_type st hs)"
  by (auto simp: default_content_type_def set_prop_other)

lemma default_content_type_adds_none:
  "(k, ExpectUndefined) \<in> set (default_content_type st hs) \<Longrightarrow> (k, ExpectUndefined) \<in> set hs"
  using set_prop_subset [of hs "''Content-Type''" json_content_type]
  by (auto simp: default_content_type_def json_content_type_def split: if_splits)

lemma default_content_type_idem:
  "default_content_type st (default_content_type st hs) = default_content_type st hs"
  by (simp add: default_content_type_def map_of_set_prop json_content_type_def)

lemma expected_headers_default:
  "expected_headers (with_default_content_type opts) =
     map_option (default_content_type (expected_status opts)) (expected_headers opts)"
  by (simp add: expected_headers_def expected_status_def with_default_content_type_def
      field_of_def field_or_def split: option.splits)

lemma build_request_url: "test_url (fst (build_request env meth url opts w)) = url"
  by (simp add: build_request_def Let_def add_fields_url add_files_url split: prod.splits option.splits)

lemma prepare_shape:
  "\<exists>req0 w1. test_url req0 = with_query url (field_or opt_query [] opts) \<and>
     prepare env meth url opts w =
       ((with_query url (field_or opt_query [] opts), with_default_content_type opts,
         (case expected_headers (with_default_content_type opts) of
            None \<Rightarrow> Inr req0 | Some expected \<Rightarrow> expect_headers expected req0)), w1)"
proof -
  let ?url1 = "with_query url (field_or opt_query [] opts)"
  obtain req0 w1 where b: "build_request env meth ?url1 (with_default_content_type opts) w = (req0, w1)"
    by (cases "build_request env meth ?url1 (with_default_content_type opts) w")
  with build_request_url [of env meth ?url1 "with_default_content_type opts" w]
  have "test_url req0 = ?url1" by simp
  moreover have "prepare env meth url opts w =
       ((?url1, with_default_content_type opts,
         (case expected_headers (with_default_content_type opts) of
            None \<Rightarrow> Inr req0 | Some expected \<Rightarrow> expect_headers expected req0)), w1)"
    by (simp add: prepare_def Let_def b expected_headers_def)
  ultimately show ?thesis by blast
qed

lemma headers_defined_default: "headers_defined opts \<Longrightarrow> headers_defined (with_default_content_type opts)"
  using default_content_type_adds_none
  by (fastforce simp: headers_defined_def expected_headers_default list_all_iff split: option.splits)

lemma prepare_defined:
  assumes "headers_defined opts"
  shows "\<exists>req w1. test_url req = with_query url (field_or opt_query [] opts) \<and>
     prepare env meth url opts w =
       ((with_query url (field_or opt_query [] opts), with_default_content_type opts, Inr req), w1)"
proof -
  obtain req0 w1 where u: "test_url req0 = with_query url (field_or opt_query [] opts)"
    and p: "prepare env meth url opts w =
       ((with_query url (field_or opt_query [] opts), with_default_content_type opts,
         (case expected_headers (with_default_content_type opts) of
            None \<Rightarrow> Inr req0 | Some expected \<Rightarrow> expect_headers expected req0)), w1)"
    using prepare_shape [where env=env and meth=meth and url=url and opts=opts and w=w] by blast
  show ?thesis
  proof (cases "expected_headers (with_default_content_type opts)")
    case None
    with u p show ?thesis by auto
  next
    case (Some ex)
    from headers_defined_default [OF assms] Some
    have "ExpectUndefined \<notin> snd ` set ex"
      by (force simp: headers_defined_def list_all_iff)
    then obtain req' where r: "expect_headers ex req0 = Inr req'"
      using expect_headers_defined by blast
    with expect_headers_url u have "test_url req' = with_query url (field_or opt_query [] opts)" by metis
    with p Some r show ?thesis by auto
  qed
qed

lemma prepare_undefined:
  assumes "expected_headers opts = Some hs" and "(k, ExpectUndefined) \<in> set hs"
    and "k \<noteq> ''Content-Type'' \<or> expected_status opts = 204"
  shows "\<exists>key url1 opts1 w1. (key, ExpectUndefined) \<in> set hs \<and>
     prepare env meth url opts w = ((url1, opts1, Inl (Error (undefined_header_message key))), w1)"
proof -
  obtain req0 w1 where
    p: "prepare env meth url opts w =
       ((with_query url (field_or opt_query [] opts), with_default_content_type opts,
         (case expected_headers (with_default_content_type opts) of
            None \<Rightarrow> Inr req0 | Some expected \<Rightarrow> expect_headers expected req0)), w1)"
    using prepare_shape [where env=env and meth=meth and url=url and opts=opts and w=w] by blast
  let ?ex = "default_content_type (expected_status opts) hs"
  have e: "expected_headers (with_default_content_type opts) = Some ?ex"
    by (simp add: expected_headers_default assms(1))
  have "(k, ExpectUndefined) \<in> set ?ex"
    using assms(2,3) by (rule default_content_type_keeps)
  then obtain key where "(key, ExpectUndefined) \<in> set ?ex"
    and "expect_headers ?ex req0 = Inl (Error (undefined_header_message key))"
    using expect_headers_undefined by blast
  with p e default_content_type_adds_none show ?thesis by fastforce
qed

lemma requestRaw_throws:
  "prepare env meth url opts (wire_world s) = ((url1, opts1, Inl e), w1) \<Longrightarrow>
   requestRaw env meth url opts attempt s = (Inl e, s\<lparr>wire_world := w1\<rparr>)"
  by (subst requestRaw.simps) simp

lemma requestRaw_answered:
  "prepare env meth url opts (wire_world s) = ((url1, opts1, Inr req), w1) \<Longrightarrow>
   send_request env req w1 = (Inr resp, w2) \<Longrightarrow>
   requestRaw env meth url opts attempt s = (Inr resp, \<lparr>wire_world = w2, attempts = attempts s @ [req]\<rparr>)"
  by (subst requestRaw.simps) simp

lemma requestRaw_failed:
  "prepare env meth url opts (wire_world s) = ((url1, opts1, Inr req), w1) \<Longrightarrow>
   send_request env req w1 = (Inl e, w2) \<Longrightarrow>
   err_code e \<noteq> Some ''ECONNRESET'' \<or> attempt > 2 \<Longrightarrow>
   requestRaw env meth url opts attempt s = (Inl (Thrown e), \<lparr>wire_world = w2, attempts = attempts s @ [req]\<rparr>)"
  by (subst requestRaw.simps) auto

lemma requestRaw_retried:
  "prepare env meth url opts (wire_world s) = ((url1, opts1, Inr req), w1) \<Longrightarrow>
   send_request env req w1 = (Inl e, w2) \<Longrightarrow>
   err_code e = Some ''ECONNRESET'' \<Longrightarrow> attempt \<le> 2 \<Longrightarrow>
   requestRaw env meth url opts attempt s =
     requestRaw env meth url1 opts1 (attempt + 1) \<lparr>wire_world = w2, attempts = attempts s @ [req]\<rparr>"
  by (subst requestRaw.simps) auto

lemma resets_until_fourth:
  assumes dead: "\<forall>req w. \<exists>e w'. send_request env req w = (Inl e, w') \<and> err_code e = Some ''ECONNRESET''"
  shows "headers_defined opts \<Longrightarrow> attempt \<le> 3 \<Longrightarrow> n = 3 - attempt \<Longrightarrow>
    \<exists>e. fst (requestRaw env meth url opts attempt s) = Inl (Thrown e)
       \<and> err_code e = Some ''ECONNRESET''
       \<and> length (attempts (snd (requestRaw env meth url opts attempt s))) = length (attempts s) + (4 - attempt)"
proof (induction n arbitrary: attempt url opts s)
  case 0
  then have a: "attempt > 2" by simp
  obtain req w1 where p: "prepare env meth url opts (wire_world s) =
       ((with_query url (field_or opt_query [] opts), with_default_content_type opts, Inr req), w1)"
    using prepare_defined [OF 0(1), where env=env and meth=meth and url=url and w="wire_world s"] by blast
  obtain e w2 where t: "send_request env req w1 = (Inl e, w2)" and c: "err_code e = Some ''ECONNRESET''"
    using dead by blast
  from requestRaw_failed [OF p t, of attempt] a c 0 show ?case by simp
next
  case (Suc n)
  then have a: "attempt \<le> 2" by simp
  obtain req w1 where p: "prepare env meth url opts (wire_world s) =
       ((with_query url (field_or opt_query [] opts), with_default_content_type opts, Inr req), w1)"
    using prepare_defined [OF Suc(2), where env=env and meth=meth and url=url and w="wire_world s"] by blast
  obtain e w2 where t: "send_request env req w1 = (Inl e, w2)" and c: "err_code e = Some ''ECONNRESET''"
    using dead by blast
  let ?s2 = "\<lparr>wire_world = w2, attempts = attempts s @ [req]\<rparr>"
  have step: "requestRaw env meth url opts attempt s =
     requestRaw env meth (with_query url (field_or opt_query [] opts)) (with_default_content_type opts) (attempt + 1) ?s2"
    using requestRaw_retried [OF p t c a] .
  have "\<exists>e. fst (requestRaw env meth (with_query url (field_or opt_query [] opts)) (with_default_content_type opts) (attempt + 1) ?s2) = Inl (Thrown e)
       \<and> err_code e = Some ''ECONNRESET''
       \<and> length (attempts (snd (requestRaw env meth (with_query url (field_or opt_query [] opts)) (with_default_content_type opts) (attempt + 1) ?s2))) = length (attempts ?s2) + (4 - (attempt + 1))"
    using Suc.prems a by (intro Suc.IH headers_defined_default) auto
  with step a show ?case by auto
qed

lemma prepare_cases:
  obtains (throws) url1 opts1 e w1 where
      "prepare env meth url opts w = ((url1, opts1, Inl e), w1)"
  | (ready) opts1 req w1 where
      "prepare env meth url opts w = ((with_query url (field_or opt_query [] opts), opts1, Inr req), w1)"
      "test_url req = with_query url (field_or opt_query [] opts)"
proof -
  obtain req0 w1 where u: "test_url req0 = with_query url (field_or opt_query [] opts)"
    and p: "prepare env meth url opts w =
       ((with_query url (field_or opt_query [] opts), with_default_content_type opts,
         (case expected_headers (with_default_content_type opts) of
            None \<Rightarrow> Inr req0 | Some expected \<Rightarrow> expect_headers expected req0)), w1)"
    using prepare_shape [where env=env and meth=meth and url=url and opts=opts and w=w] by blast
  show thesis
  proof (cases "case expected_headers (with_default_content_type opts) of
            None \<Rightarrow> Inr req0 | Some expected \<Rightarrow> expect_headers expected req0")
    case (Inl e)
    with p show thesis by (intro throws) simp
  next
    case (Inr req)
    then have "test_url req = test_url req0"
      by (auto split: option.splits dest: expect_headers_url)
    with p u Inr show thesis
      by (intro ready [of "with_default_content_type opts" req w1]) simp_all
  qed
qed

lemma first_attempt:
  "\<exists>reqs. attempts (snd (requestRaw env meth url opts attempt s)) = attempts s @ reqs
     \<and> (reqs \<noteq> [] \<longrightarrow> test_url (hd reqs) = with_query url (field_or opt_query [] opts))"
proof (induction "3 - attempt" arbitrary: attempt url opts s rule: less_induct)
  case less
  show ?case
  proof (cases rule: prepare_cases [of env meth url opts "wire_world s"])
    case (throws url1 opts1 e w1)
    from requestRaw_throws [OF this] show ?thesis by simp
  next
    case (ready opts1 req w1)
    obtain r w2 where t: "send_request env req w1 = (r, w2)" by (cases "send_request env req w1")
    let ?s2 = "\<lparr>wire_world = w2, attempts = attempts s @ [req]\<rparr>"
    show ?thesis
    proof (cases r)
      case (Inr resp)
      with requestRaw_answered [OF ready(1)] t ready(2) show ?thesis by simp
    next
      case (Inl e)
      show ?thesis
      proof (cases "err_code e = Some ''ECONNRESET'' \<and> attempt \<le> 2")
        case False
        then have "err_code e \<noteq> Some ''ECONNRESET'' \<or> attempt > 2" by auto
        with requestRaw_failed [OF ready(1)] t Inl ready(2) show ?thesis by simp
      next
        case True
        with requestRaw_retried [OF ready(1)] t Inl
        have step: "requestRaw env meth url opts attempt s =
          requestRaw env meth (with_query url (field_or opt_query [] opts)) opts1 (attempt + 1) ?s2"
          by simp
        from True have "3 - (attempt + 1) < 3 - attempt" by arith
        from less [OF this, of "with_query url (field_or opt_query [] opts)" opts1 ?s2]
        obtain reqs where "attempts (snd (requestRaw env meth (with_query url (field_or opt_query [] opts)) opts1 (attempt + 1) ?s2))
          = attempts s @ req # reqs" by auto
        with step ready(2) show ?thesis by simp
      qed
    qed
  qed
qed

lemma attempts_bounded:
  "length (attempts (snd (requestRaw env meth url opts attempt s)))
     \<le> length (attempts s) + max 1 (4 - attempt)"
proof (induction "3 - attempt" arbitrary: attempt url opts s rule: less_induct)
  case less
  show ?case
  proof (cases rule: prepare_cases [of env meth url opts "wire_world s"])
    case (throws url1 opts1 e w1)
    from requestRaw_throws [OF this] show ?thesis by simp
  next
    case (ready opts1 req w1)
    obtain r w2 where t: "send_request env req w1 = (r, w2)" by (cases "send_request env req w1")
    let ?s2 = "\<lparr>wire_world = w2, attempts = attempts s @ [req]\<rparr>"
    show ?thesis
    proof (cases r)
      case (Inr resp)
      with requestRaw_answered [OF ready(1)] t show ?thesis by simp
    next
      case (Inl e)
      show ?thesis
      proof (cases "err_code e = Some ''ECONNRESET'' \<and> attempt \<le> 2")
        case False
        then have "err_code e \<noteq> Some ''ECONNRESET'' \<or> attempt > 2" by auto
        with requestRaw_failed [OF ready(1)] t Inl show ?thesis by simp
      next
        case True
        with requestRaw_retried [OF ready(1)] t Inl
        have step: "requestRaw env meth url opts attempt s =
          requestRaw env meth (with_query url (field_or opt_query [] opts)) opts1 (attempt + 1) ?s2"
          by simp
        from True have "3 - (attempt + 1) < 3 - attempt" by arith
        from less [OF this, of "with_query url (field_or opt_query [] opts)" opts1 ?s2]
        have "length (attempts (snd (requestRaw env meth (with_query url (field_or opt_query [] opts)) opts1 (attempt + 1) ?s2)))
          \<le> length (attempts s) + 1 + max 1 (4 - (attempt + 1))" by simp
        moreover from True
        have "length (attempts s) + 1 + max 1 (4 - (attempt + 1)) = length (attempts s) + max 1 (4 - attempt)"
          by (auto simp: max_def)
        ultimately show ?thesis using step by simp
      qed
    qed
  qed
qed

lemma query_default:
  "field_or opt_query [] (with_default_content_type opts) = field_or opt_query [] opts"
  by (simp add: with_default_content_type_def field_or_def split: option.splits)

text \<open>What a retry is called with: the URL that already has the query string, and the same
  query, so that the retry's own URL has the query string twice; the two differ as soon as
  one value of the query is truthy.\<close>

lemma prepare_again:
  assumes "prepare env meth url opts w = ((url1, opts1, r), w1)"
    and "prepare env meth url1 opts1 w' = ((url2, opts2, r'), w2)"
  shows "url1 = with_query url (field_or opt_query [] opts)"
    and "url2 = with_query (with_query url (field_or opt_query [] opts)) (field_or opt_query [] opts)"
proof -
  from prepare_shape [where env=env and meth=meth and url=url and opts=opts and w=w] assms(1)
  have 1: "url1 = with_query url (field_or opt_query [] opts)"
    and o: "opts1 = with_default_content_type opts"
    by auto
  from prepare_shape [where env=env and meth=meth and url=url1 and opts=opts1 and w=w'] assms(2)
  have "url2 = with_query url1 (field_or opt_query [] opts1)" by auto
  with 1 o show "url1 = with_query url (field_or opt_query [] opts)"
    and "url2 = with_query (with_query url (field_or opt_query [] opts)) (field_or opt_query [] opts)"
    by (simp_all add: query_default)
qed

lemma with_query_twice:
  "truthy_pairs query \<noteq> [] \<Longrightarrow> with_query (with_query url query) query \<noteq> with_query url query"
  by (simp add: with_query_eq url_with_truthy_pairs_def)

section \<open>The claims about the ingester\<close>

text \<open>
  C1. A URL that starts with neither \<^verbatim>\<open>https://www.npmjs.com/package/\<close> nor
  \<^verbatim>\<open>https://registry.npmjs.org/\<close> makes \<^verbatim>\<open>npmUpload\<close> throw the error
  \<^verbatim>\<open>The plugin origin must be from NPM\<close>, and the machine is left as it was: no
  call to the network or the file system is recorded and the world is unchanged.
\<close>

theorem npmUpload_rejects_other_origins:
  assumes "\<not> prefix ''https://www.npmjs.com/package/'' url"
    and "\<not> prefix ''https://registry.npmjs.org/'' url"
  shows "npmUpload env url name headers s = (Inl (Error ''The plugin origin must be from NPM''), s)"
  using assms
  by (simp add: npmUpload_def isValidBaseUrl_def ALLOWED_BASE_URLS_def throw_def startsWith_prefix)

theorem npmUpload_rejects_other_origins_witness:
  "\<not> prefix ''https://www.npmjs.com/package/'' ''https://example.com/plugin.tgz''
   \<and> \<not> prefix ''https://registry.npmjs.org/'' ''https://example.com/plugin.tgz''
   \<and> npmUpload (stub_env 200 (Inr Null)) ''https://example.com/plugin.tgz'' ''plugin'' [] boot
       = (Inl (Error ''The plugin origin must be from NPM''), boot)"
proof -
  have h1: "\<not> prefix ''https://www.npmjs.com/package/'' ''https://example.com/plugin.tgz''" by simp
  have h2: "\<not> prefix ''https://registry.npmjs.org/'' ''https://example.com/plugin.tgz''" by simp
  from npmUpload_rejects_other_origins [OF h1 h2] h1 h2 show ?thesis by blast
qed

text \<open>
  C3. The claim: for a registry URL whose JSON answer lacks \<^verbatim>\<open>dist-tags.latest\<close> or
  the tarball URL of that version, \<^verbatim>\<open>npmUpload\<close> throws
  \<^verbatim>\<open>NPM tarball url not found\<close> and does not download. The code reads
  \<^verbatim>\<open>npmDetails["dist-tags"].latest\<close> without the guard that the next line has, so
  an answer with no \<^verbatim>\<open>dist-tags\<close> at all ends in a \<^verbatim>\<open>TypeError\<close> instead.
  The theorem runs the code on such an answer.
\<close>

theorem npmUpload_without_dist_tags:
  "npmUpload (stub_env 200 (Inr (Obj [(''name'', Str ''foo'')])))
      ''https://www.npmjs.com/package/foo'' ''foo'' [] boot
   = (Inl (TypeError (''Cannot read properties of undefined (reading '' @ [CHR 0x27] @ ''latest'' @ [CHR 0x27] @ '')'')),
      \<lparr>world = 1, trace = [Fetch ''https://registry.npmjs.org/foo'', ReadJson]\<rparr>)"
  by code_simp

text \<open>Where \<^verbatim>\<open>dist-tags\<close> is there without \<^verbatim>\<open>latest\<close>, the version is looked up
  under the key \<^verbatim>\<open>undefined\<close>, and a version of that name is downloaded.\<close>

lemma npmUpload_version_named_undefined:
  "trace (snd (npmUpload (stub_env 200 (Inr (Obj
       [(''name'', Str ''foo''), (''dist-tags'', Obj []),
        (''versions'', Obj [(''undefined'', Obj [(''dist'', Obj [(''tarball'', Str ''https://example.com/x'')])])])])))
      ''https://www.npmjs.com/package/foo'' ''foo'' [] boot)) ! 2
   = DownloadUnzipTarball (Str ''https://example.com/x'') (Str ''foo'') []"
  by code_simp

text \<open>The error of the claim is the one thrown where the answer has \<^verbatim>\<open>dist-tags\<close>
  and the chain of reads ends in a falsy value.\<close>

lemma tarball_of_details_not_found:
  assumes "\<not> nullish npmDetails" and "\<not> nullish (own_prop npmDetails ''dist-tags'')"
    and "to_string (own_prop (own_prop npmDetails ''dist-tags'') ''latest'') = Some key"
    and "\<not> truthy (opt_prop (opt_prop (opt_prop (opt_prop npmDetails ''versions'') key) ''dist'') ''tarball'')"
  shows "tarball_of_details npmDetails = (Inl (Error ''NPM tarball url not found'') :: 'x error + jsval \<times> jsval)"
proof (cases "nullish (own_prop npmDetails ''versions'')")
  case True
  with assms show ?thesis
    by (simp add: tarball_of_details_def get_prop_def opt_prop_def)
next
  case False
  with assms show ?thesis
    by (simp add: tarball_of_details_def get_prop_def opt_prop_def)
qed

text \<open>
  C6. For an allow-listed URL without \<^verbatim>\<open>.tgz\<close> in it, when the registry URL is built
  and the fetch answers with a status other than 200, \<^verbatim>\<open>npmUpload\<close> throws
  \<^verbatim>\<open>NPM Package not found\<close>, and the fetch is the only call recorded: the body is
  not read and nothing is downloaded.
\<close>

theorem npmUpload_package_not_found:
  assumes "isValidBaseUrl url" and "\<not> sublist ''.tgz'' url"
    and "new_URL env (registry_path url) ''https://registry.npmjs.org/'' = Some npmPackageURl"
    and "fetch env npmPackageURl (world s) = (Inr response, w')"
    and "status response \<noteq> 200"
  shows "npmUpload env url name headers s =
           (Inl (Error ''NPM Package not found''), \<lparr>world = w', trace = trace s @ [Fetch npmPackageURl]\<rparr>)"
  using assms
  by (simp add: npmUpload_def resolve_def Let_def registry_path_allowed andThen_def call_def
      throw_def includes_str_sublist)

theorem npmUpload_package_not_found_witness:
  "isValidBaseUrl ''https://www.npmjs.com/package/foo''
   \<and> \<not> sublist ''.tgz'' ''https://www.npmjs.com/package/foo''
   \<and> new_URL (stub_env 404 (Inr Null)) (registry_path ''https://www.npmjs.com/package/foo'')
         ''https://registry.npmjs.org/'' = Some ''https://registry.npmjs.org/foo''
   \<and> fetch (stub_env 404 (Inr Null)) ''https://registry.npmjs.org/foo'' (world boot)
         = (Inr \<lparr>status = 404, json = Inr Null\<rparr>, 1)
   \<and> status \<lparr>status = 404, json = Inr Null :: string + jsval\<rparr> \<noteq> 200
   \<and> npmUpload (stub_env 404 (Inr Null)) ''https://www.npmjs.com/package/foo'' ''foo'' [] boot
       = (Inl (Error ''NPM Package not found''),
          \<lparr>world = 1, trace = [Fetch ''https://registry.npmjs.org/foo'']\<rparr>)"
proof -
  have h1: "isValidBaseUrl ''https://www.npmjs.com/package/foo''"
    by (simp add: isValidBaseUrl_def ALLOWED_BASE_URLS_def)
  have h2: "\<not> sublist ''.tgz'' ''https://www.npmjs.com/package/foo''"
    unfolding includes_str_sublist [symmetric] by simp
  have h3: "new_URL (stub_env 404 (Inr Null)) (registry_path ''https://www.npmjs.com/package/foo'')
         ''https://registry.npmjs.org/'' = Some ''https://registry.npmjs.org/foo''"
    by (simp add: stub_env_def registry_path_def split_def)
  have h4: "fetch (stub_env 404 (Inr Null)) ''https://registry.npmjs.org/foo'' (world boot)
         = (Inr \<lparr>status = 404, json = Inr Null\<rparr>, 1)"
    by (simp add: stub_env_def boot_def)
  have h5: "status \<lparr>status = 404, json = Inr Null :: string + jsval\<rparr> \<noteq> 200" by simp
  from npmUpload_package_not_found [OF h1 h2 h3 h4 h5, of "''foo''" "[]"] h1 h2 h3 h4 h5
  show ?thesis by (simp add: boot_def)
qed

text \<open>
  C7. For an allow-listed URL that ends in \<^verbatim>\<open>.tgz\<close>, the first thing
  \<^verbatim>\<open>npmUpload\<close> does is call \<^verbatim>\<open>downloadUnzipTarball\<close> with that very URL, the
  given name and the given headers, in the world as it was: when that call throws,
  \<^verbatim>\<open>npmUpload\<close> throws the same and leaves the world as the call left it; when it
  returns a directory, \<^verbatim>\<open>npmUpload\<close> goes on from there with the unpacking. Nothing
  depends on the registry: with any other \<^verbatim>\<open>fetch\<close> and any other URL constructor
  the result is the same. And no call recorded after the download is a registry fetch or
  a reading of a registry answer.
\<close>

theorem npmUpload_tarball_link:
  assumes "isValidBaseUrl url" and "suffix ''.tgz'' url"
  shows "npmUpload env url name headers s =
      (case downloadUnzipTarball env (Str url) (Str name) headers (world s) of
         (Inl x, w') \<Rightarrow>
           (Inl (Thrown x), \<lparr>world = w', trace = trace s @ [DownloadUnzipTarball (Str url) (Str name) headers]\<rparr>)
       | (Inr path, w') \<Rightarrow>
           after_download env path
             \<lparr>world = w', trace = trace s @ [DownloadUnzipTarball (Str url) (Str name) headers]\<rparr>)
    \<and> (\<forall>f g. npmUpload (env\<lparr>fetch := f, new_URL := g\<rparr>) url name headers s = npmUpload env url name headers s)
    \<and> npmUpload env url name headers s = unpack env (Str url) (Str name) headers s
    \<and> (\<exists>evs. trace (snd (npmUpload env url name headers s))
                = trace s @ DownloadUnzipTarball (Str url) (Str name) headers # evs
          \<and> list_all (\<lambda>ev. \<not> registry_event ev) evs)"
proof -
  from assms have tgz: "includes_str url ''.tgz''" by (simp add: suffix_includes_str)
  note call = npmUpload_direct_call [OF assms(1) tgz, of env name headers s]
  have indep: "\<forall>f g. npmUpload (env\<lparr>fetch := f, new_URL := g\<rparr>) url name headers s = npmUpload env url name headers s"
    using npmUpload_direct_no_registry [OF assms(1) tgz] by blast
  note whole = npmUpload_direct [OF assms(1) tgz, of env name headers s]
  from whole unpack_trace [of env "Str url" "Str name" headers s]
  have "\<exists>evs. trace (snd (npmUpload env url name headers s))
                = trace s @ DownloadUnzipTarball (Str url) (Str name) headers # evs
          \<and> list_all (\<lambda>ev. \<not> registry_event ev) evs"
    by simp
  with call indep whole show ?thesis by blast
qed

theorem npmUpload_tarball_link_witness:
  "isValidBaseUrl ''https://registry.npmjs.org/foo/-/foo-1.0.0.tgz''
   \<and> suffix ''.tgz'' ''https://registry.npmjs.org/foo/-/foo-1.0.0.tgz''
   \<and> npmUpload recording_env ''https://registry.npmjs.org/foo/-/foo-1.0.0.tgz'' ''foo''
         [(''authorization'', ''Bearer t'')] blank
       = (Inr ''metadata of /tmp/plugin'',
          \<lparr>world =
             [DownloadUnzipTarball (Str ''https://registry.npmjs.org/foo/-/foo-1.0.0.tgz'') (Str ''foo'')
                [(''authorization'', ''Bearer t'')],
              FindFileRec ''/tmp/plugin'' ''.tar.gz'',
              ExtractTarball ''/tmp/plugin/plugin.tar.gz'' ''/tmp/plugin'',
              DeleteFolderFileSystem ''/tmp/plugin/package'',
              GetPluginMetadata ''/tmp/plugin''],
           trace =
             [DownloadUnzipTarball (Str ''https://registry.npmjs.org/foo/-/foo-1.0.0.tgz'') (Str ''foo'')
                [(''authorization'', ''Bearer t'')],
              FindFileRec ''/tmp/plugin'' ''.tar.gz'',
              ExtractTarball ''/tmp/plugin/plugin.tar.gz'' ''/tmp/plugin'',
              DeleteFolderFileSystem ''/tmp/plugin/package'',
              GetPluginMetadata ''/tmp/plugin'']\<rparr>)"
proof -
  have h1: "isValidBaseUrl ''https://registry.npmjs.org/foo/-/foo-1.0.0.tgz''"
    by (simp add: isValidBaseUrl_def ALLOWED_BASE_URLS_def)
  have h2: "suffix ''.tgz'' ''https://registry.npmjs.org/foo/-/foo-1.0.0.tgz''"
    by (simp add: suffix_to_prefix)
  have d: "downloadUnzipTarball recording_env (Str ''https://registry.npmjs.org/foo/-/foo-1.0.0.tgz'') (Str ''foo'')
        [(''authorization'', ''Bearer t'')] (world blank)
      = (Inr ''/tmp/plugin'',
         [DownloadUnzipTarball (Str ''https://registry.npmjs.org/foo/-/foo-1.0.0.tgz'') (Str ''foo'')
            [(''authorization'', ''Bearer t'')]])"
    by (simp add: recording_env_def blank_def)
  have a: "after_download recording_env ''/tmp/plugin''
        \<lparr>world = [DownloadUnzipTarball (Str ''https://registry.npmjs.org/foo/-/foo-1.0.0.tgz'') (Str ''foo'')
                    [(''authorization'', ''Bearer t'')]],
         trace = trace blank @ [DownloadUnzipTarball (Str ''https://registry.npmjs.org/foo/-/foo-1.0.0.tgz'') (Str ''foo'')
                    [(''authorization'', ''Bearer t'')]]\<rparr>
      = (Inr ''metadata of /tmp/plugin'',
          \<lparr>world =
             [DownloadUnzipTarball (Str ''https://registry.npmjs.org/foo/-/foo-1.0.0.tgz'') (Str ''foo'')
                [(''authorization'', ''Bearer t'')],
              FindFileRec ''/tmp/plugin'' ''.tar.gz'',
              ExtractTarball ''/tmp/plugin/plugin.tar.gz'' ''/tmp/plugin'',
              DeleteFolderFileSystem ''/tmp/plugin/package'',
              GetPluginMetadata ''/tmp/plugin''],
           trace =
             [DownloadUnzipTarball (Str ''https://registry.npmjs.org/foo/-/foo-1.0.0.tgz'') (Str ''foo'')
                [(''authorization'', ''Bearer t'')],
              FindFileRec ''/tmp/plugin'' ''.tar.gz'',
              ExtractTarball ''/tmp/plugin/plugin.tar.gz'' ''/tmp/plugin'',
              DeleteFolderFileSystem ''/tmp/plugin/package'',
              GetPluginMetadata ''/tmp/plugin'']\<rparr>)"
    by (simp add: after_download_def recording_env_def blank_def andThen_def call_def rethrow_def)
  from npmUpload_tarball_link [OF h1 h2, of recording_env "''foo''" "[(''authorization'', ''Bearer t'')]" blank]
  have "npmUpload recording_env ''https://registry.npmjs.org/foo/-/foo-1.0.0.tgz'' ''foo''
         [(''authorization'', ''Bearer t'')] blank
       = (case downloadUnzipTarball recording_env (Str ''https://registry.npmjs.org/foo/-/foo-1.0.0.tgz'') (Str ''foo'')
               [(''authorization'', ''Bearer t'')] (world blank) of
         (Inl x, w') \<Rightarrow>
           (Inl (Thrown x), \<lparr>world = w', trace = trace blank @ [DownloadUnzipTarball (Str ''https://registry.npmjs.org/foo/-/foo-1.0.0.tgz'') (Str ''foo'') [(''authorization'', ''Bearer t'')]]\<rparr>)
       | (Inr path, w') \<Rightarrow>
           after_download recording_env path
             \<lparr>world = w', trace = trace blank @ [DownloadUnzipTarball (Str ''https://registry.npmjs.org/foo/-/foo-1.0.0.tgz'') (Str ''foo'') [(''authorization'', ''Bearer t'')]]\<rparr>)"
    by blast
  with d a h1 h2 show ?thesis by simp
qed

text \<open>
  C9. The path that the resolution step builds always passes the check against the allowed
  paths, since it starts with the \<^verbatim>\<open>/\<close> put in front of it; so \<^verbatim>\<open>npmUpload\<close>
  never throws \<^verbatim>\<open>Invalid NPM package path\<close>, whatever the URL and whatever the
  collaborators do.
\<close>

theorem npmUpload_never_invalid_path:
  "isAllowedPath (registry_path url) \<and>
   fst (npmUpload env url name headers s) \<noteq> Inl (Error ''Invalid NPM package path'')"
proof
  show "isAllowedPath (registry_path url)" by (rule registry_path_allowed)
next
  show "fst (npmUpload env url name headers s) \<noteq> Inl (Error ''Invalid NPM package path'')"
  proof (cases "isValidBaseUrl url")
    case False
    then show ?thesis by (simp add: npmUpload_def throw_def)
  next
    case valid: True
    show ?thesis
    proof (cases "includes_str url ''.tgz''")
      case True
      with valid show ?thesis by (simp add: npmUpload_direct unpack_not_invalid_path)
    next
      case False
      obtain r s' where res: "resolve env url s = (r, s')" by (cases "resolve env url s")
      with resolve_not_invalid_path [of env url s]
      have "r \<noteq> Inl (Error ''Invalid NPM package path'')" by simp
      with valid False res show ?thesis
        by (cases r) (auto simp: npmUpload_def andThen_def unpack_not_invalid_path split: prod.splits)
    qed
  qed
qed

text \<open>
  C10. For an allow-listed URL with \<^verbatim>\<open>.tgz\<close> anywhere in it, at the end or not, the
  resolution step is skipped and the URL is handed to the download as it was given: the
  first thing \<^verbatim>\<open>npmUpload\<close> does is call \<^verbatim>\<open>downloadUnzipTarball\<close> with that very
  URL, the given name and the given headers, in the world as it was. When that call
  throws, \<^verbatim>\<open>npmUpload\<close> throws the same and leaves the world as the call left it; when
  it returns a directory, \<^verbatim>\<open>npmUpload\<close> goes on from there with the unpacking. The
  result is the same with any other \<^verbatim>\<open>fetch\<close> and any other URL constructor.
\<close>

theorem npmUpload_tgz_anywhere:
  assumes "isValidBaseUrl url" and "sublist ''.tgz'' url"
  shows "npmUpload env url name headers s =
      (case downloadUnzipTarball env (Str url) (Str name) headers (world s) of
         (Inl x, w') \<Rightarrow>
           (Inl (Thrown x), \<lparr>world = w', trace = trace s @ [DownloadUnzipTarball (Str url) (Str name) headers]\<rparr>)
       | (Inr path, w') \<Rightarrow>
           after_download env path
             \<lparr>world = w', trace = trace s @ [DownloadUnzipTarball (Str url) (Str name) headers]\<rparr>)
    \<and> (\<forall>f g. npmUpload (env\<lparr>fetch := f, new_URL := g\<rparr>) url name headers s = npmUpload env url name headers s)
    \<and> npmUpload env url name headers s = unpack env (Str url) (Str name) headers s
    \<and> (\<exists>evs. trace (snd (npmUpload env url name headers s))
                = trace s @ DownloadUnzipTarball (Str url) (Str name) headers # evs
          \<and> list_all (\<lambda>ev. \<not> registry_event ev) evs)"
proof -
  from assms have tgz: "includes_str url ''.tgz''" by (simp add: includes_str_sublist)
  note call = npmUpload_direct_call [OF assms(1) tgz, of env name headers s]
  have indep: "\<forall>f g. npmUpload (env\<lparr>fetch := f, new_URL := g\<rparr>) url name headers s = npmUpload env url name headers s"
    using npmUpload_direct_no_registry [OF assms(1) tgz] by blast
  note whole = npmUpload_direct [OF assms(1) tgz, of env name headers s]
  from whole unpack_trace [of env "Str url" "Str name" headers s]
  have "\<exists>evs. trace (snd (npmUpload env url name headers s))
                = trace s @ DownloadUnzipTarball (Str url) (Str name) headers # evs
          \<and> list_all (\<lambda>ev. \<not> registry_event ev) evs"
    by simp
  with call indep whole show ?thesis by blast
qed

theorem npmUpload_tgz_anywhere_witness:
  "isValidBaseUrl ''https://registry.npmjs.org/a.tgz/b''
   \<and> sublist ''.tgz'' ''https://registry.npmjs.org/a.tgz/b''
   \<and> \<not> suffix ''.tgz'' ''https://registry.npmjs.org/a.tgz/b''
   \<and> npmUpload recording_env ''https://registry.npmjs.org/a.tgz/b'' ''a'' [] blank
       = (Inr ''metadata of /tmp/plugin'',
          \<lparr>world =
             [DownloadUnzipTarball (Str ''https://registry.npmjs.org/a.tgz/b'') (Str ''a'') [],
              FindFileRec ''/tmp/plugin'' ''.tar.gz'',
              ExtractTarball ''/tmp/plugin/plugin.tar.gz'' ''/tmp/plugin'',
              DeleteFolderFileSystem ''/tmp/plugin/package'',
              GetPluginMetadata ''/tmp/plugin''],
           trace =
             [DownloadUnzipTarball (Str ''https://registry.npmjs.org/a.tgz/b'') (Str ''a'') [],
              FindFileRec ''/tmp/plugin'' ''.tar.gz'',
              ExtractTarball ''/tmp/plugin/plugin.tar.gz'' ''/tmp/plugin'',
              DeleteFolderFileSystem ''/tmp/plugin/package'',
              GetPluginMetadata ''/tmp/plugin'']\<rparr>)"
proof -
  have h1: "isValidBaseUrl ''https://registry.npmjs.org/a.tgz/b''"
    by (simp add: isValidBaseUrl_def ALLOWED_BASE_URLS_def)
  have h2: "sublist ''.tgz'' ''https://registry.npmjs.org/a.tgz/b''"
    unfolding includes_str_sublist [symmetric] by simp
  have h3: "\<not> suffix ''.tgz'' ''https://registry.npmjs.org/a.tgz/b''"
    by (simp add: suffix_to_prefix)
  have d: "downloadUnzipTarball recording_env (Str ''https://registry.npmjs.org/a.tgz/b'') (Str ''a'') [] (world blank)
      = (Inr ''/tmp/plugin'', [DownloadUnzipTarball (Str ''https://registry.npmjs.org/a.tgz/b'') (Str ''a'') []])"
    by (simp add: recording_env_def blank_def)
  have a: "after_download recording_env ''/tmp/plugin''
        \<lparr>world = [DownloadUnzipTarball (Str ''https://registry.npmjs.org/a.tgz/b'') (Str ''a'') []],
         trace = trace blank @ [DownloadUnzipTarball (Str ''https://registry.npmjs.org/a.tgz/b'') (Str ''a'') []]\<rparr>
      = (Inr ''metadata of /tmp/plugin'',
          \<lparr>world =
             [DownloadUnzipTarball (Str ''https://registry.npmjs.org/a.tgz/b'') (Str ''a'') [],
              FindFileRec ''/tmp/plugin'' ''.tar.gz'',
              ExtractTarball ''/tmp/plugin/plugin.tar.gz'' ''/tmp/plugin'',
              DeleteFolderFileSystem ''/tmp/plugin/package'',
              GetPluginMetadata ''/tmp/plugin''],
           trace =
             [DownloadUnzipTarball (Str ''https://registry.npmjs.org/a.tgz/b'') (Str ''a'') [],
              FindFileRec ''/tmp/plugin'' ''.tar.gz'',
              ExtractTarball ''/tmp/plugin/plugin.tar.gz'' ''/tmp/plugin'',
              DeleteFolderFileSystem ''/tmp/plugin/package'',
              GetPluginMetadata ''/tmp/plugin'']\<rparr>)"
    by (simp add: after_download_def recording_env_def blank_def andThen_def call_def rethrow_def)
  from npmUpload_tgz_anywhere [OF h1 h2, of recording_env "''a''" "[]" blank]
  have "npmUpload recording_env ''https://registry.npmjs.org/a.tgz/b'' ''a'' [] blank
       = (case downloadUnzipTarball recording_env (Str ''https://registry.npmjs.org/a.tgz/b'') (Str ''a'') [] (world blank) of
         (Inl x, w') \<Rightarrow>
           (Inl (Thrown x), \<lparr>world = w', trace = trace blank @ [DownloadUnzipTarball (Str ''https://registry.npmjs.org/a.tgz/b'') (Str ''a'') []]\<rparr>)
       | (Inr path, w') \<Rightarrow>
           after_download recording_env path
             \<lparr>world = w', trace = trace blank @ [DownloadUnzipTarball (Str ''https://registry.npmjs.org/a.tgz/b'') (Str ''a'') []]\<rparr>)"
    by blast
  with d a h1 h2 h3 show ?thesis by simp
qed

section \<open>The claims about the request wrapper\<close>

text \<open>
  C2. The claim: when every attempt ends in a connection reset, the request is retried at
  most twice, three attempts in all. The code retries while \<^verbatim>\<open>attempt > 2\<close> is
  false, and \<^verbatim>\<open>attempt\<close> starts at 0, so the attempts numbered 0, 1 and 2 are retried
  and the fourth gives up. The first theorem runs the wrapper on a transport that resets
  every connection: four requests are sent.
\<close>

theorem requestRaw_fourth_attempt:
  "fst (requestRaw dead_harness Get ''/api/tables'' None 0 idle) = Inl (Thrown connection_reset)
   \<and> length (attempts (snd (requestRaw dead_harness Get ''/api/tables'' None 0 idle))) = 4
   \<and> \<not> length (attempts (snd (requestRaw dead_harness Get ''/api/tables'' None 0 idle))) \<le> 3"
  by code_simp

text \<open>
  C2, amended. A call of the wrapper (\<^verbatim>\<open>attempt\<close> 0) sends at most four requests,
  the first and three retries. When no expected header is undefined and the transport
  resets every connection, it sends exactly four, and then the connection-reset error is
  thrown to the caller.
\<close>

theorem requestRaw_gives_up_after_four:
  assumes "\<forall>req w. \<exists>e w'. send_request env req w = (Inl e, w') \<and> err_code e = Some ''ECONNRESET''"
    and "headers_defined opts"
  shows "length (attempts (snd (requestRaw env method url opts 0 s))) = length (attempts s) + 4
    \<and> (\<exists>e. fst (requestRaw env method url opts 0 s) = Inl (Thrown e) \<and> err_code e = Some ''ECONNRESET'')
    \<and> (\<forall>opts'. length (attempts (snd (requestRaw env method url opts' 0 s))) \<le> length (attempts s) + 4)"
proof -
  from resets_until_fourth [OF assms, of 0 3 "method" url s]
  have "length (attempts (snd (requestRaw env method url opts 0 s))) = length (attempts s) + 4
    \<and> (\<exists>e. fst (requestRaw env method url opts 0 s) = Inl (Thrown e) \<and> err_code e = Some ''ECONNRESET'')"
    by auto
  moreover have "length (attempts (snd (requestRaw env method url opts' 0 s))) \<le> length (attempts s) + 4"
    for opts'
    using attempts_bounded [of env "method" url opts' 0 s] by simp
  ultimately show ?thesis by blast
qed

theorem requestRaw_gives_up_after_four_witness:
  "(\<forall>req w. \<exists>e w'. send_request dead_harness req w = (Inl e, w') \<and> err_code e = Some ''ECONNRESET'')
   \<and> headers_defined None
   \<and> length (attempts (snd (requestRaw dead_harness Get ''/api/tables'' None 0 idle))) = length (attempts idle) + 4
   \<and> (\<exists>e. fst (requestRaw dead_harness Get ''/api/tables'' None 0 idle) = Inl (Thrown e)
          \<and> err_code e = Some ''ECONNRESET'')"
proof -
  have h1: "\<forall>req w. \<exists>e w'. send_request dead_harness req w = (Inl e, w') \<and> err_code e = Some ''ECONNRESET''"
    by (simp add: dead_harness_def connection_reset_def)
  have h2: "headers_defined None"
    by (simp add: headers_defined_def expected_headers_def field_of_def)
  from requestRaw_gives_up_after_four [OF h1 h2, of Get "''/api/tables''" idle] h1 h2
  show ?thesis by blast
qed

text \<open>
  C4. The claim: a retry sends the same request again, to the same URL, with the query
  string in it once. The code appends the query string to its parameter \<^verbatim>\<open>url\<close>
  and passes that \<^verbatim>\<open>url\<close>, with the same \<^verbatim>\<open>opts\<close>, to the retry, which appends
  the query string again. The theorem runs the wrapper with the query \<^verbatim>\<open>{a: "1"}\<close> on
  a transport that resets the first connection.
\<close>

theorem requestRaw_retry_repeats_query:
  "map test_url (attempts (snd (requestRaw (flaky_harness 1) Get ''/api/tables''
     (Some (no_opts\<lparr>opt_query := Some [(''a'', Some ''1'')]\<rparr>)) 0 idle)))
   = [''/api/tables?a=1'', ''/api/tables?a=1?a=1'']"
  by code_simp

text \<open>
  C5. The claim: an expected header bound to \<^verbatim>\<open>undefined\<close> makes the wrapper throw
  before anything is sent. Before the check the wrapper puts its default in the place of
  a falsy expectation on \<^verbatim>\<open>Content-Type\<close> (unless the expected status is 204), so an
  undefined \<^verbatim>\<open>Content-Type\<close> is taken as not given: the request is sent and answered.
\<close>

theorem requestRaw_undefined_content_type_sent:
  "fst (requestRaw (flaky_harness 0) Get ''/api/tables''
     (Some (no_opts\<lparr>opt_expectations := Some (no_expectations\<lparr>exp_headers :=
        Some [(''Content-Type'', ExpectUndefined)]\<rparr>)\<rparr>)) 0 idle) = Inr ''ok''
   \<and> length (attempts (snd (requestRaw (flaky_harness 0) Get ''/api/tables''
     (Some (no_opts\<lparr>opt_expectations := Some (no_expectations\<lparr>exp_headers :=
        Some [(''Content-Type'', ExpectUndefined)]\<rparr>)\<rparr>)) 0 idle))) = 1"
  by code_simp

text \<open>
  C5, amended. When \<^verbatim>\<open>expectations.headers\<close> binds to \<^verbatim>\<open>undefined\<close> a key other
  than \<^verbatim>\<open>Content-Type\<close>, or \<^verbatim>\<open>Content-Type\<close> itself with the expected status
  204, the wrapper throws without sending a request, and the message of the error names a
  key that is bound to \<^verbatim>\<open>undefined\<close> and ends in \<^verbatim>\<open>use headersNotPresent\<close>.
\<close>

theorem requestRaw_undefined_expected_header:
  assumes "expected_headers opts = Some hs" and "(k, ExpectUndefined) \<in> set hs"
    and "k \<noteq> ''Content-Type'' \<or> expected_status opts = 204"
  shows "\<exists>key. (key, ExpectUndefined) \<in> set hs
    \<and> fst (requestRaw env method url opts attempt s) = Inl (Error (undefined_header_message key))
    \<and> attempts (snd (requestRaw env method url opts attempt s)) = attempts s
    \<and> suffix ''use headersNotPresent'' (undefined_header_message key)"
proof -
  from prepare_undefined [OF assms, of env "method" url "wire_world s"]
  obtain key url1 opts1 w1 where key: "(key, ExpectUndefined) \<in> set hs"
    and p: "prepare env method url opts (wire_world s) = ((url1, opts1, Inl (Error (undefined_header_message key))), w1)"
    by blast
  have "suffix ''use headersNotPresent'' (undefined_header_message key)"
    by (simp add: undefined_header_message_def suffix_def)
  with key requestRaw_throws [OF p, of attempt] show ?thesis by auto
qed

theorem requestRaw_undefined_expected_header_witness:
  "expected_headers (Some (no_opts\<lparr>opt_expectations := Some (no_expectations\<lparr>exp_headers :=
        Some [(''x-foo'', ExpectUndefined)]\<rparr>)\<rparr>)) = Some [(''x-foo'', ExpectUndefined)]
   \<and> (''x-foo'', ExpectUndefined) \<in> set [(''x-foo'', ExpectUndefined)]
   \<and> ''x-foo'' \<noteq> ''Content-Type''
   \<and> requestRaw (flaky_harness 0) Get ''/api/tables''
       (Some (no_opts\<lparr>opt_expectations := Some (no_expectations\<lparr>exp_headers :=
          Some [(''x-foo'', ExpectUndefined)]\<rparr>)\<rparr>)) 0 idle
       = (Inl (Error (undefined_header_message ''x-foo'')), idle)"
proof -
  let ?opts = "Some (no_opts\<lparr>opt_expectations := Some (no_expectations\<lparr>exp_headers :=
        Some [(''x-foo'', ExpectUndefined)]\<rparr>)\<rparr>)"
  have h1: "expected_headers ?opts = Some [(''x-foo'', ExpectUndefined)]"
    by (simp add: expected_headers_def field_of_def no_opts_def no_expectations_def)
  have h2: "(''x-foo'', ExpectUndefined) \<in> set [(''x-foo'', ExpectUndefined)]" by simp
  have h3: "''x-foo'' \<noteq> ''Content-Type'' \<or> expected_status ?opts = 204" by simp
  from requestRaw_undefined_expected_header [OF h1 h2 h3, of "flaky_harness 0" Get "''/api/tables''" 0 idle]
  have r: "fst (requestRaw (flaky_harness 0) Get ''/api/tables'' ?opts 0 idle) = Inl (Error (undefined_header_message ''x-foo''))
    \<and> attempts (snd (requestRaw (flaky_harness 0) Get ''/api/tables'' ?opts 0 idle)) = attempts idle"
    by auto
  have w: "wire_world (snd (requestRaw (flaky_harness 0) Get ''/api/tables'' ?opts 0 idle)) = wire_world idle"
    by code_simp
  from r w have "requestRaw (flaky_harness 0) Get ''/api/tables'' ?opts 0 idle
       = (Inl (Error (undefined_header_message ''x-foo'')), idle)"
    by (cases "requestRaw (flaky_harness 0) Get ''/api/tables'' ?opts 0 idle") simp
  with h1 h2 show ?thesis by simp
qed

text \<open>
  C8. The URL that the wrapper computes from \<^verbatim>\<open>url\<close> and a query is \<^verbatim>\<open>url\<close>
  itself when no value of the query is truthy, and otherwise \<^verbatim>\<open>url\<close>, a \<^verbatim>\<open>?\<close>
  and the pairs with a truthy value, in the order of the entries, each as
  \<^verbatim>\<open>key=value\<close>, joined by \<^verbatim>\<open>&\<close>. That is the URL of the first request that a call
  of the wrapper sends, with \<^verbatim>\<open>opts.query\<close> as the query (empty by default).
\<close>

theorem requestRaw_query_string:
  assumes "attempts (snd (requestRaw env method url opts attempt s)) \<noteq> attempts s"
  shows "test_url (attempts (snd (requestRaw env method url opts attempt s)) ! length (attempts s))
           = url_with_truthy_pairs url (field_or opt_query [] opts)
    \<and> with_query url query = url_with_truthy_pairs url query"
proof -
  from first_attempt [of env "method" url opts attempt s] assms
  obtain reqs where "attempts (snd (requestRaw env method url opts attempt s)) = attempts s @ reqs"
    and "reqs \<noteq> []" and "test_url (hd reqs) = with_query url (field_or opt_query [] opts)"
    by auto
  then show ?thesis
    by (simp add: with_query_eq nth_append hd_conv_nth)
qed

theorem requestRaw_query_string_witness:
  "attempts (snd (requestRaw (flaky_harness 0) Get ''/api/tables''
       (Some (no_opts\<lparr>opt_query := Some [(''a'', Some ''1''), (''b'', None), (''c'', Some []), (''d'', Some ''x'')]\<rparr>))
       0 idle)) \<noteq> attempts idle
   \<and> test_url (attempts (snd (requestRaw (flaky_harness 0) Get ''/api/tables''
       (Some (no_opts\<lparr>opt_query := Some [(''a'', Some ''1''), (''b'', None), (''c'', Some []), (''d'', Some ''x'')]\<rparr>))
       0 idle)) ! length (attempts idle)) = ''/api/tables?a=1&d=x''
   \<and> with_query ''/api/tables'' [(''b'', None), (''c'', Some [])] = ''/api/tables''"
proof -
  let ?opts = "Some (no_opts\<lparr>opt_query := Some [(''a'', Some ''1''), (''b'', None), (''c'', Some []), (''d'', Some ''x'')]\<rparr>)"
  have h: "attempts (snd (requestRaw (flaky_harness 0) Get ''/api/tables'' ?opts 0 idle)) \<noteq> attempts idle"
    by code_simp
  have e1: "url_with_truthy_pairs ''/api/tables'' (field_or opt_query [] ?opts) = ''/api/tables?a=1&d=x''"
    by (simp add: url_with_truthy_pairs_def truthy_pairs_def field_or_def no_opts_def)
  have e2: "url_with_truthy_pairs ''/api/tables'' [(''b'', None), (''c'', Some [])] = ''/api/tables''"
    by (simp add: url_with_truthy_pairs_def truthy_pairs_def)
  from requestRaw_query_string [OF h, of "[(''b'', None), (''c'', Some [])]"] h e1 e2
  show ?thesis by simp
qed

end
